theory Spec2Isabelle
  imports Main "HOL-Library.Word"
begin

section \<open>The allocator wrapper of allocwrap.hpp\<close>

text \<open>
  \<^verbatim>\<open>DECLARE_STL_ALLOCATOR_WRAPPER(CLASS_TYPE, NATIVE_INSTANCE_PTR)\<close> generates a class
  template \<open>CLASS_TYPE<T>\<close> whose members forward to the object behind
  \<open>NATIVE_INSTANCE_PTR\<close>. The macro's two parameters and the template parameter \<open>T\<close> are
  parameters of the model:
  \<^item> \<open>std::size_t\<close> is a word of some width \<open>'w\<close>; \<open>*\<close> and \<open>/\<close> on it are the unsigned
    machine operations (the product wraps around, the quotient truncates);
  \<^item> a pointer is an address of the same width, \<open>NULL\<close> is address 0;
  \<^item> the native allocator is a record of its three member functions over its own
    state \<open>'s\<close>; \<open>malloc\<close> and \<open>free\<close> return the new state, \<open>max_size\<close> is \<open>const\<close>;
  \<^item> the element type \<open>T\<close> is given by \<open>sizeof(T)\<close> and its copy constructor on values;
  \<^item> \<open>throw std::bad_alloc()\<close> is the left injection of the result.
  In C++ \<open>sizeof(T)\<close> is at least 1; the model admits any word, and a property that
  needs \<open>sizeof(T)\<close> to be nonzero says so. The two \<open>address\<close> members only take the
  address of their argument and are left out.
\<close>

subsection \<open>Data\<close>

definition NULL :: "'w::len word" where
  "NULL = 0"

datatype exn = Bad_alloc

record (overloaded) ('w, 's) native =
  native_malloc :: "'w word \<Rightarrow> 's \<Rightarrow> 'w word \<times> 's"
  native_free :: "'w word \<Rightarrow> 's \<Rightarrow> 's"
  native_max_size :: "'s \<Rightarrow> 'w word"

record (overloaded) ('w, 'v) value_type =
  sizeof :: "'w word"
  copy_construct :: "'v \<Rightarrow> 'v"

text \<open>
  What the member functions act on: the state of the native allocator, and the objects
  of type \<open>T\<close> that live in raw storage (address to value; no entry where no object
  has been constructed or where it has been destroyed).
\<close>

record (overloaded) ('w, 's, 'v) world =
  native_state :: 's
  objects :: "'w word \<rightharpoonup> 'v"

subsection \<open>Construction, assignment and comparison\<close>

text \<open>
  The generated class has no data member: an instance of \<open>CLASS_TYPE<T>\<close> is a single
  value, and the type parameter of the model stands for \<open>T\<close>. The special member
  functions have empty bodies; each is written as a function of the world that returns
  the instance (where there is one) and the world it leaves.
  \<^verbatim>\<open>CLASS_TYPE() {}
  CLASS_TYPE( const CLASS_TYPE& other ) {}
  template < typename U > CLASS_TYPE ( const CLASS_TYPE<U>& other) {}
  ~CLASS_TYPE() {}
  bool operator== ( const CLASS_TYPE& other ) const { return true; }
  bool operator!= ( const CLASS_TYPE& other ) const { return false; }
  CLASS_TYPE& operator= ( const CLASS_TYPE& other ) { return *this; }
  template < typename U > CLASS_TYPE& operator= (const CLASS_TYPE<U>& other) { return *this; }\<close>
\<close>

datatype 't CLASS_TYPE = Instance

definition ctor_default :: "('w::len, 's, 'v) world \<Rightarrow> 't CLASS_TYPE \<times> ('w, 's, 'v) world" where
  "ctor_default w = (Instance, w)"

definition ctor_copy ::
  "'t CLASS_TYPE \<Rightarrow> ('w::len, 's, 'v) world \<Rightarrow> 't CLASS_TYPE \<times> ('w, 's, 'v) world" where
  "ctor_copy other w = (Instance, w)"

definition ctor_rebind ::
  "'u CLASS_TYPE \<Rightarrow> ('w::len, 's, 'v) world \<Rightarrow> 't CLASS_TYPE \<times> ('w, 's, 'v) world" where
  "ctor_rebind other w = (Instance, w)"

definition dtor :: "'t CLASS_TYPE \<Rightarrow> ('w::len, 's, 'v) world \<Rightarrow> ('w, 's, 'v) world" where
  "dtor self w = w"

definition operator_eq :: "'t CLASS_TYPE \<Rightarrow> 't CLASS_TYPE \<Rightarrow> bool" where
  "operator_eq self other = True"

definition operator_ne :: "'t CLASS_TYPE \<Rightarrow> 't CLASS_TYPE \<Rightarrow> bool" where
  "operator_ne self other = False"

definition operator_assign ::
  "'t CLASS_TYPE \<Rightarrow> 't CLASS_TYPE \<Rightarrow> ('w::len, 's, 'v) world
     \<Rightarrow> 't CLASS_TYPE \<times> ('w, 's, 'v) world" where
  "operator_assign self other w = (self, w)"

definition operator_assign_rebind ::
  "'t CLASS_TYPE \<Rightarrow> 'u CLASS_TYPE \<Rightarrow> ('w::len, 's, 'v) world
     \<Rightarrow> 't CLASS_TYPE \<times> ('w, 's, 'v) world" where
  "operator_assign_rebind self other w = (self, w)"

subsection \<open>Member functions that use the native allocator\<close>

text \<open>
  \<^verbatim>\<open>pointer allocate ( size_type n, void* hint = 0 ) {
    pointer ptr = (pointer) (NATIVE_INSTANCE_PTR)->malloc(n * sizeof(value_type));
    if (NULL == ptr) throw std::bad_alloc();
    return ptr; }\<close>
\<close>

definition allocate ::
  "('w::len, 's) native \<Rightarrow> ('w, 'v) value_type \<Rightarrow> 'w word \<Rightarrow> 'w word
     \<Rightarrow> ('w, 's, 'v) world \<Rightarrow> (exn + 'w word) \<times> ('w, 's, 'v) world" where
  "allocate A T n hint w =
     (case native_malloc A (n * sizeof T) (native_state w) of
        (ptr, s') \<Rightarrow>
          (if NULL = ptr then Inl Bad_alloc else Inr ptr, w\<lparr>native_state := s'\<rparr>))"

text \<open>
  \<^verbatim>\<open>void deallocate ( pointer p, size_type n ) { (NATIVE_INSTANCE_PTR)->free(p); n; }\<close>
\<close>

definition deallocate ::
  "('w::len, 's) native \<Rightarrow> 'w word \<Rightarrow> 'w word \<Rightarrow> ('w, 's, 'v) world \<Rightarrow> ('w, 's, 'v) world" where
  "deallocate A p n w = w\<lparr>native_state := native_free A p (native_state w)\<rparr>"

text \<open>
  \<^verbatim>\<open>size_type max_size() const {
    return ((NATIVE_INSTANCE_PTR)->max_size()/sizeof(value_type)); }\<close>
\<close>

definition max_size ::
  "('w::len, 's) native \<Rightarrow> ('w, 'v) value_type \<Rightarrow> ('w, 's, 'v) world \<Rightarrow> 'w word" where
  "max_size A T w = native_max_size A (native_state w) div sizeof T"

subsection \<open>Member functions that act on objects\<close>

text \<open>
  \<^verbatim>\<open>void construct(pointer p, const_reference val) { ::new (p) value_type(val); }
  void destroy (pointer p) { p->~value_type(); }\<close>
  Placement new runs the copy constructor of \<open>T\<close> on \<open>val\<close> and the result is the
  object at \<open>p\<close>, whatever was there before; the destructor call ends the life of the
  object at \<open>p\<close>. The copy constructor of \<open>T\<close> is the function on values that the
  element type brings along. Neither member function mentions \<open>NATIVE_INSTANCE_PTR\<close>.
\<close>

definition construct ::
  "('w::len, 'v) value_type \<Rightarrow> 'w word \<Rightarrow> 'v \<Rightarrow> ('w, 's, 'v) world \<Rightarrow> ('w, 's, 'v) world" where
  "construct T p val w = w\<lparr>objects := (objects w)(p \<mapsto> copy_construct T val)\<rparr>"

definition destroy :: "'w::len word \<Rightarrow> ('w, 's, 'v) world \<Rightarrow> ('w, 's, 'v) world" where
  "destroy p w = w\<lparr>objects := (objects w)(p := None)\<rparr>"

subsection \<open>A recording test double\<close>

text \<open>
  To observe which calls reach the native allocator, any native allocator is wrapped
  into one that does the same and appends every \<open>malloc\<close> and \<open>free\<close> call, with its
  argument, to a log kept beside the wrapped state.
\<close>

datatype 'a call = Malloc_call 'a | Free_call 'a

definition recording :: "('w::len, 's) native \<Rightarrow> ('w, 's \<times> 'w word call list) native" where
  "recording A =
     \<lparr> native_malloc = (\<lambda>bytes (s, log).
         case native_malloc A bytes s of (ptr, s') \<Rightarrow> (ptr, (s', log @ [Malloc_call bytes]))),
       native_free = (\<lambda>bulk (s, log). (native_free A bulk s, log @ [Free_call bulk])),
       native_max_size = (\<lambda>(s, log). native_max_size A s) \<rparr>"

definition calls :: "('w::len, 's \<times> 'w word call list, 'v) world \<Rightarrow> 'w word call list" where
  "calls w = snd (native_state w)"

text \<open>The byte counts that the logged \<open>malloc\<close> calls asked for, as numbers, in order.\<close>

fun requested_bytes :: "'w::len word call list \<Rightarrow> nat list" where
  "requested_bytes [] = []"
| "requested_bytes (Malloc_call bytes # cs) = unat bytes # requested_bytes cs"
| "requested_bytes (Free_call bulk # cs) = requested_bytes cs"

subsection \<open>Concrete inputs\<close>

text \<open>
  A small native allocator to run the wrapper on: it hands out consecutive addresses,
  refuses requests above \<open>cap\<close> bytes by returning \<open>NULL\<close>, and counts the blocks
  that are handed out and not yet freed.
\<close>

definition test_double :: "'w::len word \<Rightarrow> ('w, 'w word \<times> nat) native" where
  "test_double cap =
     \<lparr> native_malloc = (\<lambda>bytes (nxt, live).
         if bytes \<le> cap then (nxt, (nxt + bytes, live + 1)) else (NULL, (nxt, live))),
       native_free = (\<lambda>bulk (nxt, live). (nxt, live - 1)),
       native_max_size = (\<lambda>s. cap) \<rparr>"

definition elem8 :: "(64, nat) value_type" where
  "elem8 = \<lparr>sizeof = 8, copy_construct = (\<lambda>v. v)\<rparr>"

definition world0 :: "(64, 64 word \<times> nat, nat) world" where
  "world0 = \<lparr>native_state = (4096, 0), objects = Map.empty\<rparr>"

definition recorded0 :: "(64, (64 word \<times> nat) \<times> 64 word call list, nat) world" where
  "recorded0 = \<lparr>native_state = ((4096, 0), []), objects = Map.empty\<rparr>"

subsection \<open>Allocators that count\<close>

text \<open>
  A native allocator keeps an outstanding-allocation count, read off its state by
  \<open>outstanding\<close>, when a \<open>malloc\<close> that returns a block adds one to it and the \<open>free\<close>
  of a block that \<open>malloc\<close> has just returned takes one off again.
\<close>

definition tracks_outstanding :: "('w::len, 's) native \<Rightarrow> ('s \<Rightarrow> nat) \<Rightarrow> bool" where
  "tracks_outstanding A outstanding \<longleftrightarrow>
     (\<forall>bytes s. fst (native_malloc A bytes s) \<noteq> NULL \<longrightarrow>
        outstanding (snd (native_malloc A bytes s)) = outstanding s + 1
        \<and> outstanding (native_free A (fst (native_malloc A bytes s))
              (snd (native_malloc A bytes s)))
            = outstanding (snd (native_malloc A bytes s)) - 1)"

section \<open>Properties\<close>

subsection \<open>Calls that reach the native allocator\<close>

lemma allocate_recording_calls:
  "calls (snd (allocate (recording A) T n hint w)) = calls w @ [Malloc_call (n * sizeof T)]"
  by (simp add: allocate_def recording_def calls_def split: prod.splits)

lemma requested_bytes_append:
  "requested_bytes (cs @ ds) = requested_bytes cs @ requested_bytes ds"
  by (induction cs rule: requested_bytes.induct) simp_all

lemma deallocate_recording_calls:
  "calls (deallocate (recording A) p n w) = calls w @ [Free_call p]"
  by (simp add: deallocate_def recording_def calls_def split: prod.splits)

subsection \<open>allocate\<close>

text \<open>
  C1. \<open>allocate(n)\<close> makes exactly one call to the native allocator, \<open>malloc\<close> with the
  byte count \<open>n * sizeof(T)\<close>, for every element type and every \<open>n\<close>. The product is
  the one of \<open>size_type\<close>; whenever \<open>n\<close> elements of \<open>sizeof(T)\<close> bytes fit into
  \<open>size_type\<close> it is the number of bytes that \<open>n\<close> elements take.
\<close>

theorem allocate_requests_n_times_sizeof:
  "calls (snd (allocate (recording A) T n hint w)) = calls w @ [Malloc_call (n * sizeof T)]
   \<and> (unat n * unat (sizeof T) < 2 ^ LENGTH('w::len)
        \<longrightarrow> unat (n * sizeof T) = unat n * unat (sizeof T))"
  for n :: "'w::len word"
  by (simp add: allocate_recording_calls unat_word_ariths)

theorem allocate_requests_n_times_sizeof_witness:
  "unat (3 :: 64 word) * unat (sizeof elem8) < 2 ^ LENGTH(64)
   \<and> calls (snd (allocate (recording (test_double 1000)) elem8 3 NULL recorded0))
       = [Malloc_call 24]
   \<and> unat ((3 :: 64 word) * sizeof elem8) = 24"
  using allocate_requests_n_times_sizeof
    [where A = "test_double 1000" and T = elem8 and n = 3 and hint = NULL and w = recorded0]
  by (simp add: calls_def elem8_def recorded0_def)

text \<open>
  C2. When the native \<open>malloc\<close> returns \<open>NULL\<close>, \<open>allocate(n)\<close> throws \<open>std::bad_alloc\<close>;
  when it returns another pointer, \<open>allocate(n)\<close> returns that pointer and throws nothing.
\<close>

theorem allocate_null_raises_bad_alloc:
  "(fst (native_malloc A (n * sizeof T) (native_state w)) = NULL
      \<longrightarrow> fst (allocate A T n hint w) = Inl Bad_alloc)
   \<and> (fst (native_malloc A (n * sizeof T) (native_state w)) \<noteq> NULL
      \<longrightarrow> fst (allocate A T n hint w)
          = Inr (fst (native_malloc A (n * sizeof T) (native_state w))))"
  by (auto simp: allocate_def split: prod.splits)

theorem allocate_null_raises_bad_alloc_witness:
  "fst (native_malloc (test_double 1000) (126 * sizeof elem8) (native_state world0)) = NULL
   \<and> fst (allocate (test_double 1000) elem8 126 NULL world0) = Inl Bad_alloc
   \<and> fst (native_malloc (test_double 1000) (125 * sizeof elem8) (native_state world0)) \<noteq> NULL
   \<and> fst (allocate (test_double 1000) elem8 125 NULL world0) = Inr 4096"
  using
    allocate_null_raises_bad_alloc
      [where A = "test_double 1000" and T = elem8 and n = 126 and hint = NULL and w = world0]
    allocate_null_raises_bad_alloc
      [where A = "test_double 1000" and T = elem8 and n = 125 and hint = NULL and w = world0]
  by (simp add: test_double_def elem8_def world0_def NULL_def)

text \<open>
  C10. \<open>allocate(n)\<close> passes on the product computed in \<open>size_type\<close> and checks
  nothing before the call: over a recording native allocator the one byte count it
  asks for is \<open>n * sizeof(T)\<close> modulo \<open>2 ^ w\<close>, which is less than \<open>n\<close> elements need
  as soon as they need \<open>2 ^ w\<close> bytes or more; it never looks at \<open>max_size()\<close>
  (replacing the native allocator's \<open>max_size\<close> by any other function changes nothing);
  and it fails exactly when the native \<open>malloc\<close> returns \<open>NULL\<close> for that wrapped count,
  otherwise it returns the block. At \<open>w = 64\<close>, \<open>sizeof(T) = 8\<close> and \<open>n = 2 ^ 61 + 3\<close>,
  above \<open>SIZE_MAX / sizeof(T)\<close> and above \<open>max_size()\<close>, 24 bytes are requested and
  the block is returned.
\<close>

theorem allocate_byte_count_wraps:
  "requested_bytes (calls (snd (allocate (recording A) T n hint r)))
     = requested_bytes (calls r) @ [(unat n * unat (sizeof T)) mod 2 ^ LENGTH('w)]
   \<and> (2 ^ LENGTH('w) \<le> unat n * unat (sizeof T)
        \<longrightarrow> last (requested_bytes (calls (snd (allocate (recording A) T n hint r))))
            < unat n * unat (sizeof T))
   \<and> allocate (B\<lparr>native_max_size := f\<rparr>) T n hint w = allocate B T n hint w
   \<and> (fst (allocate B T n hint w) = Inl Bad_alloc)
       = (fst (native_malloc B (n * sizeof T) (native_state w)) = NULL)
   \<and> (fst (native_malloc B (n * sizeof T) (native_state w)) \<noteq> NULL
        \<longrightarrow> fst (allocate B T n hint w)
            = Inr (fst (native_malloc B (n * sizeof T) (native_state w))))"
  for n :: "'w::len word"
proof -
  have m: "unat (n * sizeof T) = (unat n * unat (sizeof T)) mod 2 ^ LENGTH('w)"
    by (simp add: unat_word_ariths)
  have req: "requested_bytes (calls (snd (allocate (recording A) T n hint r)))
      = requested_bytes (calls r) @ [(unat n * unat (sizeof T)) mod 2 ^ LENGTH('w)]"
    by (simp add: allocate_recording_calls requested_bytes_append m)
  have lt: "(unat n * unat (sizeof T)) mod 2 ^ LENGTH('w) < 2 ^ LENGTH('w)"
    by simp
  have wrap: "2 ^ LENGTH('w) \<le> unat n * unat (sizeof T)
      \<longrightarrow> last (requested_bytes (calls (snd (allocate (recording A) T n hint r))))
          < unat n * unat (sizeof T)"
  proof
    assume "2 ^ LENGTH('w) \<le> unat n * unat (sizeof T)"
    with lt have "(unat n * unat (sizeof T)) mod 2 ^ LENGTH('w) < unat n * unat (sizeof T)"
      by linarith
    then show "last (requested_bytes (calls (snd (allocate (recording A) T n hint r))))
        < unat n * unat (sizeof T)"
      by (simp add: req)
  qed
  have frame: "allocate (B\<lparr>native_max_size := f\<rparr>) T n hint w = allocate B T n hint w"
    by (simp add: allocate_def)
  have fails: "(fst (allocate B T n hint w) = Inl Bad_alloc)
      = (fst (native_malloc B (n * sizeof T) (native_state w)) = NULL)"
    by (auto simp: allocate_def split: prod.splits)
  have returns: "fst (native_malloc B (n * sizeof T) (native_state w)) \<noteq> NULL
      \<longrightarrow> fst (allocate B T n hint w)
          = Inr (fst (native_malloc B (n * sizeof T) (native_state w)))"
    by (auto simp: allocate_def split: prod.splits)
  from req wrap frame fails returns show ?thesis by blast
qed

theorem allocate_byte_count_wraps_witness:
  "(2305843009213693955 :: 64 word) > max_size (test_double 1000) elem8 world0
   \<and> unat (2305843009213693955 :: 64 word) > (2 ^ 64 - 1) div unat (sizeof elem8)
   \<and> 2 ^ LENGTH(64) \<le> unat (2305843009213693955 :: 64 word) * unat (sizeof elem8)
   \<and> unat (2305843009213693955 :: 64 word) * unat (sizeof elem8) = 18446744073709551640
   \<and> requested_bytes (calls (snd (allocate (recording (test_double 1000)) elem8
        2305843009213693955 NULL recorded0))) = [24]
   \<and> fst (native_malloc (test_double 1000) (2305843009213693955 * sizeof elem8)
        (native_state world0)) \<noteq> NULL
   \<and> fst (allocate (test_double 1000) elem8 2305843009213693955 NULL world0) = Inr 4096"
  using allocate_byte_count_wraps
    [where A = "test_double 1000" and B = "test_double 1000" and f = "\<lambda>s. 0" and T = elem8
       and n = 2305843009213693955 and hint = NULL and w = world0 and r = recorded0]
  by (simp add: allocate_def recording_def calls_def max_size_def test_double_def elem8_def
      world0_def recorded0_def NULL_def)

subsection \<open>deallocate\<close>

text \<open>
  C5. \<open>deallocate(p, n)\<close> makes exactly one call to the native allocator, \<open>free\<close> with
  the pointer \<open>p\<close>; the new state of the native allocator is the one \<open>free(p)\<close> leaves,
  and nothing depends on \<open>n\<close>: two calls that differ only in \<open>n\<close> have the same effect.
\<close>

theorem deallocate_forwards_pointer_ignores_n:
  "calls (deallocate (recording A) p n w) = calls w @ [Free_call p]
   \<and> native_state (deallocate B p n v) = native_free B p (native_state v)
   \<and> objects (deallocate B p n v) = objects v
   \<and> deallocate B p n v = deallocate B p m v"
  by (simp add: deallocate_recording_calls) (simp add: deallocate_def)

subsection \<open>max\_size\<close>

text \<open>
  C3. \<open>max_size()\<close> is the native allocator's \<open>max_size()\<close> divided by \<open>sizeof(T)\<close>,
  the quotient rounded down: that many elements fit into the native maximum, and
  (as \<open>sizeof(T)\<close> is not 0) one more would not.
\<close>

theorem max_size_truncating_division:
  "max_size A T w = native_max_size A (native_state w) div sizeof T
   \<and> unat (max_size A T w) = unat (native_max_size A (native_state w)) div unat (sizeof T)
   \<and> unat (max_size A T w) * unat (sizeof T) \<le> unat (native_max_size A (native_state w))
   \<and> (sizeof T \<noteq> 0 \<longrightarrow>
        unat (native_max_size A (native_state w)) < (unat (max_size A T w) + 1) * unat (sizeof T))"
proof -
  have q: "unat (max_size A T w) = unat (native_max_size A (native_state w)) div unat (sizeof T)"
    by (simp add: max_size_def unat_div)
  have pos: "sizeof T \<noteq> 0 \<Longrightarrow> 0 < unat (sizeof T)"
    by (simp add: unat_gt_0)
  show ?thesis
    using q pos by (auto simp: max_size_def dividend_less_div_times)
qed

theorem max_size_truncating_division_witness:
  "sizeof elem8 \<noteq> 0
   \<and> max_size (test_double 1003) elem8 world0 = 125
   \<and> unat (max_size (test_double 1003) elem8 world0) * unat (sizeof elem8) \<le> 1003
   \<and> 1003 < (unat (max_size (test_double 1003) elem8 world0) + 1) * unat (sizeof elem8)"
  using max_size_truncating_division
    [where A = "test_double 1003" and T = elem8 and w = world0]
  by (simp add: max_size_def test_double_def elem8_def world0_def)

subsection \<open>Round trip\<close>

text \<open>
  C7. Over a native allocator that keeps an outstanding-allocation count, an
  \<open>allocate(n)\<close> that returns \<open>ptr\<close>, followed at once by \<open>deallocate(ptr, n)\<close>,
  leaves the count at the value it had before the \<open>allocate\<close>.
\<close>

theorem allocate_deallocate_round_trip:
  assumes "tracks_outstanding A outstanding"
    and "allocate A T n hint w = (Inr ptr, w1)"
  shows "outstanding (native_state (deallocate A ptr n w1)) = outstanding (native_state w)"
proof -
  obtain p s' where m: "native_malloc A (n * sizeof T) (native_state w) = (p, s')"
    by (cases "native_malloc A (n * sizeof T) (native_state w)")
  from assms(2) m have p: "p \<noteq> NULL" and ptr: "ptr = p" and w1: "w1 = w\<lparr>native_state := s'\<rparr>"
    by (auto simp: allocate_def split: if_splits)
  from assms(1) m p have "outstanding s' = outstanding (native_state w) + 1"
    and "outstanding (native_free A p s') = outstanding s' - 1"
    unfolding tracks_outstanding_def by (metis fst_conv snd_conv)+
  then show ?thesis
    by (simp add: deallocate_def ptr w1)
qed

theorem allocate_deallocate_round_trip_witness:
  "tracks_outstanding (test_double 1000 :: (64, _) native) snd
   \<and> allocate (test_double 1000) elem8 3 NULL world0
       = (Inr 4096, world0\<lparr>native_state := (4120, 1)\<rparr>)
   \<and> snd (native_state
        (deallocate (test_double 1000) 4096 3 (world0\<lparr>native_state := (4120, 1)\<rparr>)))
       = snd (native_state world0)"
proof -
  have t: "tracks_outstanding (test_double 1000 :: (64, _) native) snd"
    by (simp add: tracks_outstanding_def test_double_def split: prod.splits)
  have a: "allocate (test_double 1000) elem8 3 NULL world0
       = (Inr 4096, world0\<lparr>native_state := (4120, 1)\<rparr>)"
    by (simp add: allocate_def test_double_def elem8_def world0_def NULL_def)
  from allocate_deallocate_round_trip [OF t a] t a show ?thesis by simp
qed

subsection \<open>Instances\<close>

text \<open>
  C4. An instance for \<open>U\<close> and an instance for \<open>V\<close> are compared through the
  converting constructor, which makes the one an instance of the other's type; in
  either direction \<open>operator==\<close> says true and \<open>operator!=\<close> says false, as they do for
  any two instances of one type.
\<close>

theorem rebound_instances_compare_equal:
  "operator_eq (a :: 'u CLASS_TYPE) (fst (ctor_rebind (b :: 'v CLASS_TYPE) w))
   \<and> \<not> operator_ne a (fst (ctor_rebind b w))
   \<and> operator_eq b (fst (ctor_rebind a w))
   \<and> \<not> operator_ne b (fst (ctor_rebind a w))
   \<and> operator_eq a a' \<and> \<not> operator_ne a a'"
  by (simp add: operator_eq_def operator_ne_def)

text \<open>
  C6. Default construction, copy construction, construction from an instance for
  another element type, destruction and both assignments leave the world, and with it
  the state of the native allocator, as it was; over a recording native allocator no
  call is logged.
\<close>

theorem lifecycle_leaves_native_untouched:
  "snd (ctor_default w :: 't CLASS_TYPE \<times> _) = w
   \<and> snd (ctor_copy (other :: 't CLASS_TYPE) w) = w
   \<and> snd (ctor_rebind (other_u :: 'u CLASS_TYPE) w :: 't CLASS_TYPE \<times> _) = w
   \<and> dtor (self :: 't CLASS_TYPE) w = w
   \<and> snd (operator_assign self other w) = w
   \<and> snd (operator_assign_rebind self other_u w) = w
   \<and> calls (snd (ctor_default r :: 't CLASS_TYPE \<times> _)) = calls r
   \<and> calls (snd (ctor_copy other r)) = calls r
   \<and> calls (snd (ctor_rebind other_u r :: 't CLASS_TYPE \<times> _)) = calls r
   \<and> calls (dtor self r) = calls r
   \<and> calls (snd (operator_assign self other r)) = calls r
   \<and> calls (snd (operator_assign_rebind self other_u r)) = calls r"
  by (simp add: ctor_default_def ctor_copy_def ctor_rebind_def dtor_def operator_assign_def
      operator_assign_rebind_def)

subsection \<open>construct and destroy\<close>

text \<open>
  C8. \<open>construct(p, v)\<close> leaves the native allocator's state as it was and puts the
  copy of \<open>v\<close> at \<open>p\<close>: for an element type whose copy constructor yields a value equal
  to its argument, reading \<open>*p\<close> gives \<open>v\<close>. \<open>destroy(p)\<close> ends the object at \<open>p\<close> and
  leaves the native allocator's state as it was. Constructing at \<open>p\<close> again after
  \<open>destroy(p)\<close> gives the very world that constructing there gives without the earlier
  object, so nothing of the earlier value is read.
\<close>

theorem construct_then_read_destroy_then_reconstruct:
  "native_state (construct T p v w) = native_state w
   \<and> objects (construct T p v w) p = Some (copy_construct T v)
   \<and> (copy_construct T v = v \<longrightarrow> objects (construct T p v w) p = Some v)
   \<and> native_state (destroy p w) = native_state w
   \<and> objects (destroy p w) p = None
   \<and> construct T p v' (destroy p (construct T p v w)) = construct T p v' w
   \<and> (copy_construct T v' = v'
        \<longrightarrow> objects (construct T p v' (destroy p (construct T p v w))) p = Some v')"
  by (simp add: construct_def destroy_def)

theorem construct_then_read_destroy_then_reconstruct_witness:
  "copy_construct elem8 7 = 7 \<and> copy_construct elem8 9 = 9
   \<and> objects (construct elem8 4096 7 world0) 4096 = Some 7
   \<and> objects (construct elem8 4096 9 (destroy 4096 (construct elem8 4096 7 world0))) 4096
       = Some 9"
  using construct_then_read_destroy_then_reconstruct
    [where T = elem8 and p = 4096 and v = 7 and v' = 9 and w = world0]
  by (simp add: elem8_def construct_def destroy_def)

end
